theory Spec2Isabelle
  imports Complex_Main
begin

section \<open>Python values and the operations the handler applies to them\<close>

text \<open>
  The backend (\<^verbatim>\<open>lesson5/homework5/backend/backend.py\<close>) registers one callback,
  \<^verbatim>\<open>on_message\<close>, that turns an MQTT message into InfluxDB points. The handler works on
  whatever \<^verbatim>\<open>json.loads\<close> returns, so the model carries the whole range of JSON values
  as Python sees them. A \<^verbatim>\<open>dict\<close> is an association list in insertion order (its keys
  are strings, as JSON object keys always are); a Python \<^verbatim>\<open>float\<close> is carried as a real
  number (the handler only tests its type and passes it on, it never computes with it);
  a Python \<^verbatim>\<open>str\<close> is a \<^typ>\<open>string\<close>.
\<close>

datatype pyval =
    PNone
  | PBool bool
  | PInt int
  | PFloat real
  | PStr string
  | PList "pyval list"
  | PDict "(string \<times> pyval) list"

text \<open>The exceptions that can leave the handler. None of them is caught in the source.\<close>

datatype exn =
    TypeError
  | KeyError
  | IndexError
  | AttributeError
  | ValueError
  | JSONDecodeError
  | UnicodeDecodeError
  | ConnectionError
  | InfluxDBClientError
  | InfluxDBServerError

text \<open>\<^verbatim>\<open>str.split(sep)\<close> for a one-character separator: one more piece than there are
  separators, empty pieces kept. The scan carries the piece it is reading.\<close>

fun split_from :: "char \<Rightarrow> string \<Rightarrow> string \<Rightarrow> string list" where
  "split_from sep piece [] = [piece]"
| "split_from sep piece (c # cs) =
     (if c = sep then piece # split_from sep [] cs
      else split_from sep (piece @ [c]) cs)"

definition py_split :: "char \<Rightarrow> string \<Rightarrow> string list" where
  "py_split sep s = split_from sep [] s"

text \<open>\<^verbatim>\<open>needle in haystack\<close> on two strings: the substring test.\<close>

fun is_substring :: "string \<Rightarrow> string \<Rightarrow> bool" where
  "is_substring needle [] = (needle = [])"
| "is_substring needle (c # cs) =
     (take (length needle) (c # cs) = needle \<or> is_substring needle cs)"

text \<open>Indexing a sequence with an integer: negative indices count from the end, an index
  out of range raises \<^verbatim>\<open>IndexError\<close>.\<close>

definition py_index :: "'a list \<Rightarrow> int \<Rightarrow> exn + 'a" where
  "py_index xs i =
     (if 0 \<le> i then
        (if nat i < length xs then Inr (xs ! nat i) else Inl IndexError)
      else
        (if nat (- i) \<le> length xs then Inr (xs ! (length xs - nat (- i)))
         else Inl IndexError))"

text \<open>\<^verbatim>\<open>container[key]\<close>. A \<^verbatim>\<open>bool\<close> is an \<^verbatim>\<open>int\<close> in Python and indexes a sequence;
  a \<^verbatim>\<open>list\<close> or \<^verbatim>\<open>dict\<close> is unhashable and cannot be looked up in a \<^verbatim>\<open>dict\<close>.\<close>

fun py_getitem :: "pyval \<Rightarrow> pyval \<Rightarrow> exn + pyval" where
  "py_getitem (PDict kvs) (PStr k) =
     (case map_of kvs k of None \<Rightarrow> Inl KeyError | Some v \<Rightarrow> Inr v)"
| "py_getitem (PDict kvs) (PList _) = Inl TypeError"
| "py_getitem (PDict kvs) (PDict _) = Inl TypeError"
| "py_getitem (PDict kvs) _ = Inl KeyError"
| "py_getitem (PList xs) (PInt i) = py_index xs i"
| "py_getitem (PList xs) (PBool b) = py_index xs (if b then 1 else 0)"
| "py_getitem (PList xs) _ = Inl TypeError"
| "py_getitem (PStr s) (PInt i) = map_sum id (\<lambda>c. PStr [c]) (py_index s i)"
| "py_getitem (PStr s) (PBool b) =
     map_sum id (\<lambda>c. PStr [c]) (py_index s (if b then 1 else 0))"
| "py_getitem (PStr s) _ = Inl TypeError"
| "py_getitem _ _ = Inl TypeError"

text \<open>\<^verbatim>\<open>for x in container\<close>: the keys of a \<^verbatim>\<open>dict\<close>, the elements of a \<^verbatim>\<open>list\<close>, the
  characters of a \<^verbatim>\<open>str\<close>; anything else is not iterable.\<close>

fun py_iter :: "pyval \<Rightarrow> exn + pyval list" where
  "py_iter (PDict kvs) = Inr (map (\<lambda>kv. PStr (fst kv)) kvs)"
| "py_iter (PList xs) = Inr xs"
| "py_iter (PStr s) = Inr (map (\<lambda>c. PStr [c]) s)"
| "py_iter _ = Inl TypeError"

text \<open>\<^verbatim>\<open>key in container\<close> for a string \<^verbatim>\<open>key\<close>: key membership in a \<^verbatim>\<open>dict\<close>, element
  membership in a \<^verbatim>\<open>list\<close>, the substring test in a \<^verbatim>\<open>str\<close>; a number, a boolean or
  \<^verbatim>\<open>None\<close> raises \<^verbatim>\<open>TypeError\<close>.\<close>

fun py_contains :: "string \<Rightarrow> pyval \<Rightarrow> exn + bool" where
  "py_contains k (PDict kvs) = Inr (map_of kvs k \<noteq> None)"
| "py_contains k (PList xs) = Inr (PStr k \<in> set xs)"
| "py_contains k (PStr s) = Inr (is_substring k s)"
| "py_contains k _ = Inl TypeError"

text \<open>\<^verbatim>\<open>obj.get(key)\<close>: only a \<^verbatim>\<open>dict\<close> has the method; a missing key gives \<^verbatim>\<open>None\<close>.\<close>

fun py_get :: "pyval \<Rightarrow> string \<Rightarrow> exn + pyval" where
  "py_get (PDict kvs) k = Inr (case map_of kvs k of None \<Rightarrow> PNone | Some v \<Rightarrow> v)"
| "py_get _ k = Inl AttributeError"

text \<open>\<^verbatim>\<open>isinstance(v, float)\<close>: an \<^verbatim>\<open>int\<close> and a \<^verbatim>\<open>bool\<close> are not a \<^verbatim>\<open>float\<close>.\<close>

fun isinstance_float :: "pyval \<Rightarrow> bool" where
  "isinstance_float (PFloat _) = True"
| "isinstance_float _ = False"

section \<open>Messages, points and the handler's surroundings\<close>

record message =
  topic :: string
  payload :: string

record tags =
  location :: string
  station :: string

text \<open>One element of the list handed to \<^verbatim>\<open>write_points\<close> (source lines 150 to 160). The
  measurement is the loop variable as it is; \<open>fields_value\<close> is \<^verbatim>\<open>fields["value"]\<close>,
  the value as it was read from the entry.\<close>

record 'dt point =
  timestamp :: 'dt
  measurement :: pyval
  tags :: tags
  fields_value :: pyval

datatype log_record =
    Warning_invalid_topic string
  | Info_received pyval string
  | Warning_no_timestamp string string pyval
  | Warning_non_float pyval string string pyval

text \<open>What the handler does to the outside, in order: a log line, or a call of
  \<^verbatim>\<open>influxdb_client.write_points\<close> with its argument.\<close>

datatype 'dt effect =
    Log log_record
  | Write_points "'dt point list"

record ('dt, 'db) world =
  trace :: "'dt effect list"
  db :: 'db

text \<open>
  The library functions the handler calls are parameters: \<^verbatim>\<open>bytes.decode\<close>,
  \<^verbatim>\<open>json.loads\<close>, \<^verbatim>\<open>datetime.strptime\<close> (string first, format second) and the InfluxDB
  client's \<^verbatim>\<open>write_points\<close>. \<open>None\<close> from the first three is the exception the library
  raises on bad input; \<^verbatim>\<open>write_points\<close> returns the exception it raised, if any, and the
  database after the call.
\<close>

record ('dt, 'db) env =
  decode :: "string \<Rightarrow> string option"
  json_loads :: "string \<Rightarrow> pyval option"
  strptime :: "string \<Rightarrow> string \<Rightarrow> 'dt option"
  write_points :: "'db \<Rightarrow> 'dt point list \<Rightarrow> exn option \<times> 'db"

definition TIMESTAMP_FMT :: string where
  "TIMESTAMP_FMT = ''%Y-%m-%d %H:%M:%S''"

section \<open>The handler\<close>

text \<open>Source lines 124 to 130: the topic must split on \<^verbatim>\<open>"/"\<close> into two pieces, which
  become location and station.\<close>

definition route :: "string \<Rightarrow> tags option" where
  "route t =
     (if length (py_split CHR ''/'' t) \<noteq> 2 then None
      else Some \<lparr>location = py_split CHR ''/'' t ! 0, station = py_split CHR ''/'' t ! 1\<rparr>)"

text \<open>
  The body of the loop of lines 136 to 160 for one \<open>m\<close> (the source's \<^verbatim>\<open>measurement\<close>):
  the messages collected so far and the trace go in; an exception, or the new messages,
  come out with the trace. The source reads \<^verbatim>\<open>payload[measurement]\<close> again at each use;
  nothing changes the payload in between, so the model reads it once. In
  \<^verbatim>\<open>None or x\<close> the left operand is falsy, so the value is \<^verbatim>\<open>x\<close>. The point's dictionary
  is built field by field, \<^verbatim>\<open>strptime\<close> first, which raises \<^verbatim>\<open>TypeError\<close> on a timestamp
  that is not a string and \<^verbatim>\<open>ValueError\<close> on one that does not match the format.
\<close>

definition loop_body ::
  "(string \<Rightarrow> string \<Rightarrow> 'dt option) \<Rightarrow> tags \<Rightarrow> pyval \<Rightarrow> pyval \<Rightarrow>
   'dt point list \<Rightarrow> 'dt effect list \<Rightarrow> (exn + 'dt point list) \<times> 'dt effect list" where
  "loop_body strp ident pl m messages tr =
     (case py_getitem pl m of
        Inl e \<Rightarrow> (Inl e, tr)
      | Inr entry \<Rightarrow>
          (case py_contains ''timestamp'' entry of
             Inl e \<Rightarrow> (Inl e, tr)
           | Inr has_ts \<Rightarrow>
               if \<not> has_ts then
                 (Inr messages,
                  tr @ [Log (Warning_no_timestamp (location ident) (station ident) m)])
               else
                 (case py_getitem entry (PStr ''timestamp'') of
                    Inl e \<Rightarrow> (Inl e, tr)
                  | Inr ts \<Rightarrow>
                      (case py_get entry ''value'' of
                         Inl e \<Rightarrow> (Inl e, tr)
                       | Inr v \<Rightarrow>
                           if \<not> isinstance_float v then
                             (Inr messages,
                              tr @ [Log (Warning_non_float v (location ident)
                                           (station ident) m)])
                           else
                             (case ts of
                                PStr s \<Rightarrow>
                                  (case strp s TIMESTAMP_FMT of
                                     None \<Rightarrow> (Inl ValueError, tr)
                                   | Some t \<Rightarrow>
                                       (Inr (messages @
                                          [\<lparr>timestamp = t, measurement = m, tags = ident,
                                            fields_value = v\<rparr>]),
                                        tr))
                              | _ \<Rightarrow> (Inl TypeError, tr))))))"

text \<open>The loop over the payload's keys: the first exception ends it.\<close>

fun collect ::
  "(string \<Rightarrow> string \<Rightarrow> 'dt option) \<Rightarrow> tags \<Rightarrow> pyval \<Rightarrow> pyval list \<Rightarrow>
   'dt point list \<Rightarrow> 'dt effect list \<Rightarrow> (exn + 'dt point list) \<times> 'dt effect list" where
  "collect strp ident pl [] messages tr = (Inr messages, tr)"
| "collect strp ident pl (m # ms) messages tr =
     (case loop_body strp ident pl m messages tr of
        (Inl e, tr') \<Rightarrow> (Inl e, tr')
      | (Inr messages', tr') \<Rightarrow> collect strp ident pl ms messages' tr')"

text \<open>
  \<^verbatim>\<open>on_message\<close>, source lines 121 to 163. The result is the exception that left the
  handler (\<open>None\<close> when it returned) and the world after it.
\<close>

definition on_message ::
  "('dt, 'db) env \<Rightarrow> message \<Rightarrow> ('dt, 'db) world \<Rightarrow> exn option \<times> ('dt, 'db) world" where
  "on_message E msg w =
     (case route (topic msg) of
        None \<Rightarrow> (None, w\<lparr>trace := trace w @ [Log (Warning_invalid_topic (topic msg))]\<rparr>)
      | Some ident \<Rightarrow>
          (case decode E (payload msg) of
             None \<Rightarrow> (Some UnicodeDecodeError, w)
           | Some text \<Rightarrow>
               (case json_loads E text of
                  None \<Rightarrow> (Some JSONDecodeError, w)
                | Some pl \<Rightarrow>
                    (case py_iter pl of
                       Inl e \<Rightarrow>
                         (Some e, w\<lparr>trace := trace w @ [Log (Info_received pl (topic msg))]\<rparr>)
                     | Inr ms \<Rightarrow>
                         (case collect (strptime E) ident pl ms []
                                 (trace w @ [Log (Info_received pl (topic msg))]) of
                            (Inl e, tr) \<Rightarrow> (Some e, w\<lparr>trace := tr\<rparr>)
                          | (Inr messages, tr) \<Rightarrow>
                              if messages \<noteq> [] then
                                (case write_points E (db w) messages of
                                   (r, d) \<Rightarrow>
                                     (r, \<lparr>trace = tr @ [Write_points messages], db = d\<rparr>))
                              else (None, w\<lparr>trace := tr\<rparr>))))))"

section \<open>Fixtures for the scenarios\<close>

text \<open>
  Stand-ins for the library at the inputs the scenarios below use, and only there: the
  parsed values that \<^verbatim>\<open>json.loads\<close> returns for a handful of payload texts (any other text
  is treated as not being JSON), \<^verbatim>\<open>datetime.strptime\<close> on the timestamp
  \<^verbatim>\<open>2024-01-01 12:00:00\<close> (any other string is treated as not matching the format), and
  a database that refuses a number of writes before it accepts one. The database state is
  the number of refusals left and the batches committed so far.
\<close>

type_synonym scenario_datetime = "nat \<times> nat \<times> nat \<times> nat \<times> nat \<times> nat"

type_synonym scenario_db = "nat \<times> scenario_datetime point list list"

definition scenario_strptime :: "string \<Rightarrow> string \<Rightarrow> scenario_datetime option" where
  "scenario_strptime s f =
     (if f = ''%Y-%m-%d %H:%M:%S'' \<and> s = ''2024-01-01 12:00:00''
      then Some (2024, 1, 1, 12, 0, 0) else None)"

definition scenario_json_loads :: "string \<Rightarrow> pyval option" where
  \<open>scenario_json_loads text =
     (if text = ''{"temperature": {"timestamp": "2024-01-01 12:00:00", "value": 21.5}}'' then
        Some (PDict [(''temperature'',
          PDict [(''timestamp'', PStr ''2024-01-01 12:00:00''), (''value'', PFloat 21.5)])])
      else if text = ''{"temperature": {"timestamp": "2024-01-01 12:00:00", "value": 21}}'' then
        Some (PDict [(''temperature'',
          PDict [(''timestamp'', PStr ''2024-01-01 12:00:00''), (''value'', PInt 21)])])
      else if text = ''{"temperature": {"timestamp": "yesterday", "value": 21.5}}'' then
        Some (PDict [(''temperature'',
          PDict [(''timestamp'', PStr ''yesterday''), (''value'', PFloat 21.5)])])
      else if text = ''{"humidity": {"value": 40.5}, "temperature": {"timestamp": "2024-01-01 12:00:00", "value": 21.5}}'' then
        Some (PDict [(''humidity'', PDict [(''value'', PFloat 40.5)]),
          (''temperature'',
           PDict [(''timestamp'', PStr ''2024-01-01 12:00:00''), (''value'', PFloat 21.5)])])
      else if text = ''{"temperature": {"timestamp": "2024-01-01 12:00:00", "value": 21.5}, "humidity": {"timestamp": "2024-01-01 12:00:00", "value": 40.5}}'' then
        Some (PDict [(''temperature'',
           PDict [(''timestamp'', PStr ''2024-01-01 12:00:00''), (''value'', PFloat 21.5)]),
          (''humidity'',
           PDict [(''timestamp'', PStr ''2024-01-01 12:00:00''), (''value'', PFloat 40.5)])])
      else if text = ''{"temperature": 5}'' then
        Some (PDict [(''temperature'', PInt 5)])
      else if text = ''{}'' then Some (PDict [])
      else None)\<close>

definition scenario_write_points ::
  "scenario_db \<Rightarrow> scenario_datetime point list \<Rightarrow> exn option \<times> scenario_db" where
  "scenario_write_points d batch =
     (case d of
        (0, committed) \<Rightarrow> (None, (0, committed @ [batch]))
      | (Suc n, committed) \<Rightarrow> (Some ConnectionError, (n, committed)))"

definition scenario_env :: "(scenario_datetime, scenario_db) env" where
  "scenario_env =
     \<lparr>decode = Some, json_loads = scenario_json_loads, strptime = scenario_strptime,
      write_points = scenario_write_points\<rparr>"

section \<open>The split of a topic\<close>

lemma split_from_piece:
  "split_from c piece s = (piece @ hd (split_from c [] s)) # tl (split_from c [] s)"
proof (induction s arbitrary: piece)
  case Nil
  show ?case by simp
next
  case (Cons a s)
  show ?case
  proof (cases "a = c")
    case True
    then show ?thesis by simp
  next
    case False
    have "split_from c (piece @ [a]) s = ((piece @ [a]) @ hd (split_from c [] s)) # tl (split_from c [] s)"
      by (rule Cons.IH)
    moreover have "split_from c [a] s = ([a] @ hd (split_from c [] s)) # tl (split_from c [] s)"
      using Cons.IH[of "[a]"] by simp
    ultimately show ?thesis using False by simp
  qed
qed

lemma py_split_Nil: "py_split c [] = [[]]"
  by (simp add: py_split_def)

lemma py_split_Cons:
  "py_split c (a # s) =
     (if a = c then [] # py_split c s else (a # hd (py_split c s)) # tl (py_split c s))"
  using split_from_piece[of c "[a]" s] by (simp add: py_split_def)

lemma py_split_ne: "py_split c s \<noteq> []"
  by (induction s) (auto simp: py_split_Nil py_split_Cons)

lemma length_py_split: "length (py_split c s) = Suc (count_list s c)"
  by (induction s) (auto simp: py_split_Nil py_split_Cons py_split_ne)

lemma py_split_no_sep: "c \<notin> set s \<Longrightarrow> py_split c s = [s]"
  by (induction s) (auto simp: py_split_Nil py_split_Cons)

lemma py_split_append: "c \<notin> set l \<Longrightarrow> py_split c (l @ c # r) = l # py_split c r"
  by (induction l) (auto simp: py_split_Cons)

lemma py_split_hd_no_sep: "c \<notin> set (hd (py_split c s))"
  by (induction s) (auto simp: py_split_Nil py_split_Cons py_split_ne)

lemma py_split_decomp:
  "py_split c s = p # q # ps \<Longrightarrow> \<exists>r. s = p @ c # r \<and> py_split c r = q # ps"
proof (induction s arbitrary: p)
  case Nil then show ?case by (simp add: py_split_Nil)
next
  case (Cons a s)
  show ?case
  proof (cases "a = c")
    case True with Cons.prems show ?thesis by (auto simp: py_split_Cons)
  next
    case False
    with Cons.prems have p: "p = a # hd (py_split c s)" and t: "tl (py_split c s) = q # ps" by (auto simp: py_split_Cons)
    have "py_split c s = hd (py_split c s) # q # ps" using t py_split_ne[of c s] by (cases "py_split c s") auto
    from Cons.IH[OF this] obtain r where "s = hd (py_split c s) @ c # r" "py_split c r = q # ps" by blast
    then show ?thesis using p by auto
  qed
qed

lemma py_split_single: "py_split c s = [p] \<Longrightarrow> s = p \<and> c \<notin> set p"
proof (induction s arbitrary: p)
  case Nil then show ?case by (simp add: py_split_Nil)
next
  case (Cons a s)
  show ?case
  proof (cases "a = c")
    case True with Cons.prems show ?thesis by (auto simp: py_split_Cons py_split_ne)
  next
    case False
    with Cons.prems have p: "p = a # hd (py_split c s)" and t: "tl (py_split c s) = []" by (auto simp: py_split_Cons)
    have "py_split c s = [hd (py_split c s)]" using t py_split_ne[of c s] by (cases "py_split c s") auto
    from Cons.IH[OF this] show ?thesis using p False by auto
  qed
qed

lemma py_split_two:
  "py_split c s = [l, r] \<longleftrightarrow> s = l @ c # r \<and> c \<notin> set l \<and> c \<notin> set r"
proof
  assume a: "py_split c s = [l, r]"
  from py_split_decomp[OF a] obtain r' where s: "s = l @ c # r'" and r: "py_split c r' = [r]" by blast
  from py_split_single[OF r] have "r' = r" "c \<notin> set r" by auto
  moreover have "c \<notin> set l" using py_split_hd_no_sep[of c s] a by simp
  ultimately show "s = l @ c # r \<and> c \<notin> set l \<and> c \<notin> set r" using s by simp
next
  assume "s = l @ c # r \<and> c \<notin> set l \<and> c \<notin> set r"
  then show "py_split c s = [l, r]" by (simp add: py_split_append py_split_no_sep)
qed


lemma length_two_iff: "length xs = 2 \<longleftrightarrow> (\<exists>a b. xs = [a, b])"
  by (cases xs; cases "tl xs") auto

lemma route_Some_iff:
  "route t = Some \<lparr>location = l, station = s\<rparr> \<longleftrightarrow>
     t = l @ ''/'' @ s \<and> CHR ''/'' \<notin> set l \<and> CHR ''/'' \<notin> set s"
proof
  assume a: "route t = Some \<lparr>location = l, station = s\<rparr>"
  then have len: "length (py_split CHR ''/'' t) = 2" by (auto simp: route_def split: if_splits)
  then obtain a' b' where ab: "py_split CHR ''/'' t = [a', b']" by (auto simp: length_two_iff)
  with a have "a' = l" "b' = s" by (auto simp: route_def)
  with ab show "t = l @ ''/'' @ s \<and> CHR ''/'' \<notin> set l \<and> CHR ''/'' \<notin> set s"
    using py_split_two[of "CHR ''/''" t l s] by simp
next
  assume "t = l @ ''/'' @ s \<and> CHR ''/'' \<notin> set l \<and> CHR ''/'' \<notin> set s"
  then have "py_split CHR ''/'' t = [l, s]" using py_split_two[of "CHR ''/''" t l s] by simp
  then show "route t = Some \<lparr>location = l, station = s\<rparr>" by (simp add: route_def)
qed

lemma route_None_iff: "route t = None \<longleftrightarrow> count_list t CHR ''/'' \<noteq> 1"
  by (simp add: route_def length_py_split)

lemma on_message_invalid_topic:
  "route (topic msg) = None \<Longrightarrow>
   on_message E msg w =
     (None, w\<lparr>trace := trace w @ [Log (Warning_invalid_topic (topic msg))]\<rparr>)"
  by (simp add: on_message_def)

section \<open>The loop and the handler, case by case\<close>

lemma loop_body_no_timestamp:
  "py_getitem pl m = Inr (PDict es) \<Longrightarrow> map_of es ''timestamp'' = None \<Longrightarrow>
   loop_body strp i pl m msgs tr =
     (Inr msgs, tr @ [Log (Warning_no_timestamp (location i) (station i) m)])"
  by (simp add: loop_body_def)


lemma loop_body_float:
  "py_getitem pl m = Inr (PDict es) \<Longrightarrow> map_of es ''timestamp'' = Some (PStr s) \<Longrightarrow>
   map_of es ''value'' = Some (PFloat x) \<Longrightarrow>
   loop_body strp i pl m msgs tr =
     (case strp s TIMESTAMP_FMT of
        None \<Rightarrow> (Inl ValueError, tr)
      | Some t \<Rightarrow>
          (Inr (msgs @ [\<lparr>timestamp = t, measurement = m, tags = i,
                         fields_value = PFloat x\<rparr>]), tr))"
  by (simp add: loop_body_def)

lemma loop_body_trace:
  "loop_body strp i pl m msgs tr = (r, tr') \<Longrightarrow> \<exists>ls. tr' = tr @ map Log ls"
proof -
  assume a: "loop_body strp i pl m msgs tr = (r, tr')"
  have "tr' = tr \<or> (\<exists>l. tr' = tr @ [Log l])"
    using a by (auto simp: loop_body_def split: sum.splits if_splits pyval.splits option.splits)
  then show ?thesis
  proof
    assume "tr' = tr" then have "tr' = tr @ map Log []" by simp then show ?thesis by blast
  next
    assume "\<exists>l. tr' = tr @ [Log l]"
    then obtain l where "tr' = tr @ map Log [l]" by auto
    then show ?thesis by blast
  qed
qed

lemma collect_trace:
  "collect strp i pl ms msgs tr = (r, tr') \<Longrightarrow> \<exists>ls. tr' = tr @ map Log ls"
proof (induction ms arbitrary: msgs tr)
  case Nil
  then have "tr' = tr @ map Log []" by simp
  then show ?case by blast
next
  case (Cons m ms)
  obtain r1 tr1 where b: "loop_body strp i pl m msgs tr = (r1, tr1)" by (cases "loop_body strp i pl m msgs tr")
  from loop_body_trace[OF b] obtain l1 where l1: "tr1 = tr @ map Log l1" by blast
  show ?case
  proof (cases r1)
    case (Inl e)
    with Cons.prems b have "tr' = tr1" by simp
    with l1 show ?thesis by blast
  next
    case (Inr msgs1)
    with Cons.prems b have "collect strp i pl ms msgs1 tr1 = (r, tr')" by simp
    from Cons.IH[OF this] obtain l2 where "tr' = tr1 @ map Log l2" by blast
    with l1 have "tr' = tr @ map Log (l1 @ l2)" by simp
    then show ?thesis by blast
  qed
qed

lemma isinstance_float_iff: "isinstance_float v \<longleftrightarrow> (\<exists>x. v = PFloat x)"
  by (cases v) auto

lemma loop_body_point:
  "loop_body strp i pl m msgs tr = (Inr out, tr') \<Longrightarrow>
   out = msgs \<or>
   (\<exists>entry s t x. out = msgs @ [\<lparr>timestamp = t, measurement = m, tags = i, fields_value = PFloat x\<rparr>]
      \<and> py_getitem pl m = Inr entry
      \<and> py_contains ''timestamp'' entry = Inr True
      \<and> py_getitem entry (PStr ''timestamp'') = Inr (PStr s)
      \<and> py_get entry ''value'' = Inr (PFloat x)
      \<and> strp s TIMESTAMP_FMT = Some t)"
  by (auto simp: loop_body_def isinstance_float_iff
           split: sum.splits if_splits option.splits pyval.splits)

lemma collect_points:
  "collect strp i pl ms msgs tr = (Inr out, tr') \<Longrightarrow>
   \<exists>new. out = msgs @ new \<and>
     (\<forall>p \<in> set new. \<exists>entry s x.
        py_getitem pl (measurement p) = Inr entry
        \<and> py_contains ''timestamp'' entry = Inr True
        \<and> py_getitem entry (PStr ''timestamp'') = Inr (PStr s)
        \<and> py_get entry ''value'' = Inr (PFloat x)
        \<and> strp s TIMESTAMP_FMT = Some (timestamp p)
        \<and> tags p = i \<and> fields_value p = PFloat x)"
proof (induction ms arbitrary: msgs tr)
  case Nil
  then have "out = msgs @ []" by simp
  then show ?case by fastforce
next
  case (Cons m ms)
  let ?ok = "\<lambda>p. \<exists>entry s x.
        py_getitem pl (measurement p) = Inr entry
        \<and> py_contains ''timestamp'' entry = Inr True
        \<and> py_getitem entry (PStr ''timestamp'') = Inr (PStr s)
        \<and> py_get entry ''value'' = Inr (PFloat x)
        \<and> strp s TIMESTAMP_FMT = Some (timestamp p)
        \<and> tags p = i \<and> fields_value p = PFloat x"
  obtain r1 tr1 where b: "loop_body strp i pl m msgs tr = (r1, tr1)"
    by (cases "loop_body strp i pl m msgs tr")
  with Cons.prems obtain msgs1 where r1: "r1 = Inr msgs1"
    and c: "collect strp i pl ms msgs1 tr1 = (Inr out, tr')"
    by (cases r1) auto
  from Cons.IH[OF c] obtain new where new: "out = msgs1 @ new"
    and all: "\<forall>p \<in> set new. ?ok p" by blast
  from loop_body_point[OF b[unfolded r1]]
  consider "msgs1 = msgs" | p where "msgs1 = msgs @ [p]" "?ok p"
    by fastforce
  then show ?case
  proof cases
    case 1
    with new all show ?thesis by blast
  next
    case 2
    with new have "out = msgs @ (p # new)" by simp
    moreover have "\<forall>q \<in> set (p # new). ?ok q" using 2 all by simp
    ultimately show ?thesis by blast
  qed
qed

lemma on_message_cases:
  assumes "on_message E msg w = (r, w')"
  shows "(\<exists>ls. trace w' = trace w @ map Log ls \<and> db w' = db w)
       \<or> (\<exists>ls batch i decoded pl ms.
            trace w' = trace w @ map Log ls @ [Write_points batch] \<and> batch \<noteq> []
            \<and> write_points E (db w) batch = (r, db w')
            \<and> route (topic msg) = Some i \<and> decode E (payload msg) = Some decoded
            \<and> json_loads E decoded = Some pl \<and> py_iter pl = Inr ms
            \<and> collect (strptime E) i pl ms [] (trace w @ [Log (Info_received pl (topic msg))])
                = (Inr batch, trace w @ map Log ls))"
proof (cases "route (topic msg)")
  case None
  with assms have "trace w' = trace w @ map Log [Warning_invalid_topic (topic msg)]" "db w' = db w"
    by (auto simp: on_message_def)
  then show ?thesis by blast
next
  case (Some i)
  note r = this
  show ?thesis
  proof (cases "decode E (payload msg)")
    case None
    with assms r have "trace w' = trace w @ map Log []" "db w' = db w"
      by (auto simp: on_message_def)
    then show ?thesis by blast
  next
    case (Some decoded)
    note d = this
    show ?thesis
    proof (cases "json_loads E decoded")
      case None
      with assms r d have "trace w' = trace w @ map Log []" "db w' = db w"
        by (auto simp: on_message_def)
      then show ?thesis by blast
    next
      case (Some pl)
      note j = this
      let ?tr0 = "trace w @ [Log (Info_received pl (topic msg))]"
      show ?thesis
      proof (cases "py_iter pl")
        case (Inl e)
        with assms r d j have "trace w' = trace w @ map Log [Info_received pl (topic msg)]" "db w' = db w"
          by (auto simp: on_message_def)
        then show ?thesis by blast
      next
        case (Inr ms)
        note it = this
        obtain res tr where c: "collect (strptime E) i pl ms [] ?tr0 = (res, tr)"
          by (cases "collect (strptime E) i pl ms [] ?tr0")
        from collect_trace[OF c] obtain ls0 where "tr = ?tr0 @ map Log ls0" by blast
        then have tr: "tr = trace w @ map Log (Info_received pl (topic msg) # ls0)" by simp
        show ?thesis
        proof (cases res)
          case (Inl e)
          with assms r d j it c have "trace w' = tr" "db w' = db w"
            by (auto simp: on_message_def)
          with tr show ?thesis by blast
        next
          case (Inr batch)
          show ?thesis
          proof (cases "batch = []")
            case True
            with assms r d j it c Inr have "trace w' = tr" "db w' = db w"
              by (auto simp: on_message_def)
            with tr show ?thesis by blast
          next
            case False
            with assms r d j it c Inr
            have "trace w' = tr @ [Write_points batch]" "write_points E (db w) batch = (r, db w')"
              by (auto simp: on_message_def split: prod.splits)
            then have "trace w' = trace w @ map Log (Info_received pl (topic msg) # ls0) @ [Write_points batch]"
              and "write_points E (db w) batch = (r, db w')"
              using tr by simp_all
            moreover have "collect (strptime E) i pl ms [] ?tr0
                = (Inr batch, trace w @ map Log (Info_received pl (topic msg) # ls0))"
              using c Inr tr by simp
            ultimately show ?thesis using False r d j it by blast
          qed
        qed
      qed
    qed
  qed
qed

lemmas scenario_defs = on_message_def route_def py_split_def scenario_env_def
  scenario_json_loads_def scenario_strptime_def scenario_write_points_def loop_body_def
  TIMESTAMP_FMT_def

lemma on_message_run:
  "route (topic msg) = Some i \<Longrightarrow> decode E (payload msg) = Some decoded \<Longrightarrow>
   json_loads E decoded = Some pl \<Longrightarrow> py_iter pl = Inr ms \<Longrightarrow>
   collect (strptime E) i pl ms [] (trace w @ [Log (Info_received pl (topic msg))]) = (res, tr) \<Longrightarrow>
   on_message E msg w =
     (case res of
        Inl e \<Rightarrow> (Some e, w\<lparr>trace := tr\<rparr>)
      | Inr batch \<Rightarrow>
          if batch \<noteq> [] then
            (fst (write_points E (db w) batch),
             \<lparr>trace = tr @ [Write_points batch], db = snd (write_points E (db w) batch)\<rparr>)
          else (None, w\<lparr>trace := tr\<rparr>))"
  by (simp add: on_message_def split: sum.splits prod.splits)

lemma collect_no_timestamp:
  "py_getitem pl m = Inr (PDict es) \<Longrightarrow> map_of es ''timestamp'' = None \<Longrightarrow>
   collect strp i pl (m # ms) msgs tr =
     collect strp i pl ms msgs (tr @ [Log (Warning_no_timestamp (location i) (station i) m)])"
  by (simp add: loop_body_no_timestamp)

lemma collect_unparseable:
  "py_getitem pl m = Inr (PDict es) \<Longrightarrow> map_of es ''timestamp'' = Some (PStr s) \<Longrightarrow>
   map_of es ''value'' = Some (PFloat x) \<Longrightarrow> strp s TIMESTAMP_FMT = None \<Longrightarrow>
   collect strp i pl (m # ms) msgs tr = (Inl ValueError, tr)"
  by (simp add: loop_body_float)

lemma written_point_timestamp:
  assumes run: "on_message E msg w = (r, w')"
    and wr: "Write_points batch \<in> set (drop (length (trace w)) (trace w'))"
    and p: "p \<in> set batch"
  shows "\<exists>decoded pl entry s.
           decode E (payload msg) = Some decoded \<and> json_loads E decoded = Some pl
           \<and> py_getitem pl (measurement p) = Inr entry
           \<and> py_getitem entry (PStr ''timestamp'') = Inr (PStr s)
           \<and> strptime E s TIMESTAMP_FMT = Some (timestamp p)"
proof -
  from on_message_cases[OF run]
  consider ls where "trace w' = trace w @ map Log ls"
    | ls b i decoded pl ms where "trace w' = trace w @ map Log ls @ [Write_points b]"
        "decode E (payload msg) = Some decoded" "json_loads E decoded = Some pl"
        "collect (strptime E) i pl ms [] (trace w @ [Log (Info_received pl (topic msg))])
           = (Inr b, trace w @ map Log ls)"
    by blast
  then show ?thesis
  proof cases
    case 1
    with wr show ?thesis by auto
  next
    case 2
    with wr have "batch = b" by auto
    from collect_points[OF 2(4)] p this
    obtain entry s where "py_getitem pl (measurement p) = Inr entry"
      "py_getitem entry (PStr ''timestamp'') = Inr (PStr s)"
      "strptime E s TIMESTAMP_FMT = Some (timestamp p)"
      by fastforce
    with 2(2,3) show ?thesis by blast
  qed
qed



lemma collect_all_valid_points:
  "\<forall>m \<in> set ms. \<exists>k es s t x. m = PStr k \<and> map_of kvs k = Some (PDict es)
      \<and> map_of es ''timestamp'' = Some (PStr s) \<and> strp s TIMESTAMP_FMT = Some t
      \<and> map_of es ''value'' = Some (PFloat x) \<Longrightarrow>
   \<exists>new. collect strp i (PDict kvs) ms msgs tr = (Inr (msgs @ new), tr)
      \<and> list_all2 (\<lambda>m p. \<exists>k es s t x. m = PStr k \<and> map_of kvs k = Some (PDict es)
            \<and> map_of es ''timestamp'' = Some (PStr s) \<and> strp s TIMESTAMP_FMT = Some t
            \<and> map_of es ''value'' = Some (PFloat x)
            \<and> p = \<lparr>timestamp = t, measurement = m, tags = i, fields_value = PFloat x\<rparr>)
          ms new"
proof (induction ms arbitrary: msgs)
  case Nil
  then show ?case by simp
next
  case (Cons m ms)
  let ?P = "\<lambda>m p. \<exists>k es s t x. m = PStr k \<and> map_of kvs k = Some (PDict es)
            \<and> map_of es ''timestamp'' = Some (PStr s) \<and> strp s TIMESTAMP_FMT = Some t
            \<and> map_of es ''value'' = Some (PFloat x)
            \<and> p = \<lparr>timestamp = t, measurement = m, tags = i, fields_value = PFloat x\<rparr>"
  from Cons.prems obtain k es s t x where m: "m = PStr k"
    and e: "map_of kvs k = Some (PDict es)"
    and ts: "map_of es ''timestamp'' = Some (PStr s)" and p: "strp s TIMESTAMP_FMT = Some t"
    and v: "map_of es ''value'' = Some (PFloat x)"
    by auto
  let ?p = "\<lparr>timestamp = t, measurement = m, tags = i, fields_value = PFloat x\<rparr>"
  have g: "py_getitem (PDict kvs) m = Inr (PDict es)" using m e by simp
  have step: "loop_body strp i (PDict kvs) m msgs tr = (Inr (msgs @ [?p]), tr)"
    using loop_body_float[OF g ts v, of strp i msgs tr] p by simp
  have Pm: "?P m ?p" using m e ts p v by blast
  from Cons.prems have "\<forall>m \<in> set ms. \<exists>k es s t x. m = PStr k \<and> map_of kvs k = Some (PDict es)
      \<and> map_of es ''timestamp'' = Some (PStr s) \<and> strp s TIMESTAMP_FMT = Some t
      \<and> map_of es ''value'' = Some (PFloat x)" by simp
  from Cons.IH[OF this, of "msgs @ [?p]"] obtain new
    where c: "collect strp i (PDict kvs) ms (msgs @ [?p]) tr = (Inr ((msgs @ [?p]) @ new), tr)"
      and mm: "list_all2 ?P ms new" by blast
  have "collect strp i (PDict kvs) (m # ms) msgs tr = (Inr (msgs @ (?p # new)), tr)"
    using step c by simp
  moreover have "list_all2 ?P (m # ms) (?p # new)" using mm Pm by simp
  ultimately show ?case by (intro exI[of _ "?p # new"]) simp
qed

lemma map_of_first_entry:
  "(k, e) \<in> set kvs \<Longrightarrow> \<exists>e'. map_of kvs k = Some e' \<and> (k, e') \<in> set kvs"
  by (meson map_of_SomeD weak_map_of_SomeI)

lemma no_empty_write:
  assumes "on_message E msg w = (r, w')"
  shows "Write_points [] \<notin> set (drop (length (trace w)) (trace w'))"
proof -
  from on_message_cases[OF assms]
  consider ls where "trace w' = trace w @ map Log ls"
    | ls b where "trace w' = trace w @ map Log ls @ [Write_points b]" "b \<noteq> []"
    by blast
  then show ?thesis by cases auto
qed

lemma collect_trace_no_write:
  assumes "collect strp i pl ms msgs (tr0 @ [Log l]) = (res, tr)"
  shows "Write_points b \<notin> set (drop (length tr0) tr)"
proof -
  from collect_trace[OF assms] obtain ls where "tr = (tr0 @ [Log l]) @ map Log ls" by blast
  then have "drop (length tr0) tr = map Log (l # ls)" by simp
  then show ?thesis by auto
qed

lemma collect_append:
  "collect strp i pl (pre @ rest) msgs tr =
     (case collect strp i pl pre msgs tr of
        (Inl e, tr') \<Rightarrow> (Inl e, tr')
      | (Inr msgs', tr') \<Rightarrow> collect strp i pl rest msgs' tr')"
proof (induction pre arbitrary: msgs tr)
  case Nil
  show ?case by simp
next
  case (Cons m pre)
  show ?case
  proof (cases "loop_body strp i pl m msgs tr")
    case (Pair r1 tr1)
    then show ?thesis using Cons.IH by (cases r1) simp_all
  qed
qed

lemma on_message_unparseable:
  assumes r: "route (topic msg) = Some i"
    and d: "decode E (payload msg) = Some decoded"
    and j: "json_loads E decoded = Some pl"
    and it: "py_iter pl = Inr (pre @ m # post)"
    and pre: "collect (strptime E) i pl pre [] (trace w @ [Log (Info_received pl (topic msg))])
        = (Inr msgs, tr)"
    and g: "py_getitem pl m = Inr (PDict es)"
    and ts: "map_of es ''timestamp'' = Some (PStr s)"
    and v: "map_of es ''value'' = Some (PFloat x)"
    and p: "strptime E s TIMESTAMP_FMT = None"
  shows "on_message E msg w = (Some ValueError, \<lparr>trace = tr, db = db w\<rparr>)
       \<and> (\<forall>b. Write_points b \<notin> set (drop (length (trace w)) tr))"
proof -
  let ?tr0 = "trace w @ [Log (Info_received pl (topic msg))]"
  have "collect (strptime E) i pl (m # post) msgs tr = (Inl ValueError, tr)"
    using collect_unparseable[where strp = "strptime E", OF g ts v p] .
  then have c: "collect (strptime E) i pl (pre @ m # post) [] ?tr0 = (Inl ValueError, tr)"
    using pre by (simp add: collect_append)
  have "on_message E msg w = (Some ValueError, w\<lparr>trace := tr\<rparr>)"
    using on_message_run[OF r d j it c] by simp
  moreover have "w\<lparr>trace := tr\<rparr> = \<lparr>trace = tr, db = db w\<rparr>" by simp
  ultimately show ?thesis using collect_trace_no_write[OF pre] by simp
qed

lemma on_message_no_timestamp:
  assumes r: "route (topic msg) = Some i"
    and d: "decode E (payload msg) = Some decoded"
    and j: "json_loads E decoded = Some pl"
    and it: "py_iter pl = Inr (pre @ m # post)"
    and pre: "collect (strptime E) i pl pre [] (trace w @ [Log (Info_received pl (topic msg))])
        = (Inr msgs, tr)"
    and g: "py_getitem pl m = Inr (PDict es)"
    and ts: "map_of es ''timestamp'' = None"
  shows "on_message E msg w =
     (case collect (strptime E) i pl post msgs
             (tr @ [Log (Warning_no_timestamp (location i) (station i) m)]) of
        (Inl e, tr') \<Rightarrow> (Some e, \<lparr>trace = tr', db = db w\<rparr>)
      | (Inr batch, tr') \<Rightarrow>
          if batch \<noteq> [] then
            (fst (write_points E (db w) batch),
             \<lparr>trace = tr' @ [Write_points batch], db = snd (write_points E (db w) batch)\<rparr>)
          else (None, \<lparr>trace = tr', db = db w\<rparr>))"
proof -
  let ?tr0 = "trace w @ [Log (Info_received pl (topic msg))]"
  let ?rest = "collect (strptime E) i pl post msgs
             (tr @ [Log (Warning_no_timestamp (location i) (station i) m)])"
  have "collect (strptime E) i pl (m # post) msgs tr = ?rest"
    by (rule collect_no_timestamp[OF g ts])
  then have c: "collect (strptime E) i pl (pre @ m # post) [] ?tr0 = ?rest"
    using pre by (simp add: collect_append)
  obtain res tr' where rest: "?rest = (res, tr')" by (cases ?rest)
  have "w\<lparr>trace := tr'\<rparr> = \<lparr>trace = tr', db = db w\<rparr>" by simp
  then show ?thesis
    using on_message_run[OF r d j it c[unfolded rest]] rest
    by (simp split: sum.splits)
qed

section \<open>Topic routing\<close>

text \<open>
  Claim C1, as the code has it. Routing succeeds with location \<open>l\<close> and station \<open>s\<close>
  exactly when the topic is \<open>l\<close>, one \<^verbatim>\<open>"/"\<close>, \<open>s\<close>, with no further \<^verbatim>\<open>"/"\<close> in either
  piece; the pieces may be empty. It fails exactly when the number of separators in the
  topic is not one, and then the handler logs a warning and returns: no exception, no
  point, the database untouched.
\<close>

theorem route_iff_one_separator:
  "(route t = Some \<lparr>location = l, station = s\<rparr> \<longleftrightarrow>
      t = l @ ''/'' @ s \<and> CHR ''/'' \<notin> set l \<and> CHR ''/'' \<notin> set s)
   \<and> (route t = None \<longleftrightarrow> count_list t CHR ''/'' \<noteq> 1)
   \<and> (route t = None \<longrightarrow>
        on_message E \<lparr>topic = t, payload = p\<rparr> w =
          (None, w\<lparr>trace := trace w @ [Log (Warning_invalid_topic t)]\<rparr>))"
  using route_Some_iff[of t l s] route_None_iff[of t]
    on_message_invalid_topic[of "\<lparr>topic = t, payload = p\<rparr>" E w]
  by simp

theorem route_iff_one_separator_witness:
  "route ''greenhouse1/stationA'' = Some \<lparr>location = ''greenhouse1'', station = ''stationA''\<rparr>
   \<and> route ''badtopic'' = None
   \<and> on_message scenario_env \<lparr>topic = ''badtopic'', payload = ''{}''\<rparr> \<lparr>trace = [], db = (0, [])\<rparr> =
       (None, \<lparr>trace = [Log (Warning_invalid_topic ''badtopic'')], db = (0, [])\<rparr>)"
  using route_iff_one_separator[of "''badtopic''" "[]" "[]" scenario_env "''{}''" "\<lparr>trace = [], db = (0, [])\<rparr>"]
    route_iff_one_separator[of "''greenhouse1/stationA''" "''greenhouse1''" "''stationA''" scenario_env "''{}''" "\<lparr>trace = [], db = (0, [])\<rparr>"]
  by simp

text \<open>
  Claim C1 as stated asks for two non-empty segments. The topic \<^verbatim>\<open>greenhouse1/\<close> has an
  empty second segment and is routed all the same, with the empty string as station.
\<close>

theorem route_empty_segment_counterexample:
  "route ''greenhouse1/'' = Some \<lparr>location = ''greenhouse1'', station = ''''\<rparr>"
  by (simp add: route_def py_split_def)

section \<open>Timestamps\<close>

text \<open>
  Claim C2, as the code has it. Every point the handler hands to \<^verbatim>\<open>write_points\<close> comes
  from an entry of the payload whose \<^verbatim>\<open>timestamp\<close> is a string that
  \<^verbatim>\<open>datetime.strptime\<close> parsed in the format \<^verbatim>\<open>TIMESTAMP_FMT\<close>, and the point carries the
  parsed value. An entry with no \<^verbatim>\<open>timestamp\<close> key is logged and skipped, and the loop
  goes on with the remaining keys: when the keys before it did not raise, the handler ends
  as the rest of the loop decides, with the points collected so far kept. An entry whose
  timestamp is a string that does not parse, and whose value is a float, is not skipped:
  \<^verbatim>\<open>strptime\<close> raises \<^verbatim>\<open>ValueError\<close>, which ends the loop and leaves \<^verbatim>\<open>on_message\<close>; the
  database is unchanged and \<^verbatim>\<open>write_points\<close> is not called, whatever was collected
  before.
\<close>

theorem timestamp_checked_on_append:
  "(on_message E msg w = (r, w') \<longrightarrow>
      Write_points batch \<in> set (drop (length (trace w)) (trace w')) \<longrightarrow> p \<in> set batch \<longrightarrow>
      (\<exists>decoded pl entry s.
           decode E (payload msg) = Some decoded \<and> json_loads E decoded = Some pl
           \<and> py_getitem pl (measurement p) = Inr entry
           \<and> py_getitem entry (PStr ''timestamp'') = Inr (PStr s)
           \<and> strptime E s TIMESTAMP_FMT = Some (timestamp p)))
   \<and> (py_getitem pl m = Inr (PDict es) \<longrightarrow> map_of es ''timestamp'' = None \<longrightarrow>
        collect strp i pl (m # ms) msgs tr =
          collect strp i pl ms msgs
            (tr @ [Log (Warning_no_timestamp (location i) (station i) m)]))
   \<and> (py_getitem pl m = Inr (PDict es) \<longrightarrow> map_of es ''timestamp'' = Some (PStr s) \<longrightarrow>
        map_of es ''value'' = Some (PFloat x) \<longrightarrow> strp s TIMESTAMP_FMT = None \<longrightarrow>
        collect strp i pl (m # ms) msgs tr = (Inl ValueError, tr))
   \<and> (route (topic msg) = Some i \<longrightarrow> decode E (payload msg) = Some decoded \<longrightarrow>
        json_loads E decoded = Some pl \<longrightarrow> py_iter pl = Inr (pre @ m # post) \<longrightarrow>
        collect (strptime E) i pl pre [] (trace w @ [Log (Info_received pl (topic msg))])
          = (Inr msgs, tr) \<longrightarrow>
        py_getitem pl m = Inr (PDict es) \<longrightarrow> map_of es ''timestamp'' = None \<longrightarrow>
        on_message E msg w =
          (case collect (strptime E) i pl post msgs
                  (tr @ [Log (Warning_no_timestamp (location i) (station i) m)]) of
             (Inl e, tr') \<Rightarrow> (Some e, \<lparr>trace = tr', db = db w\<rparr>)
           | (Inr batch, tr') \<Rightarrow>
               if batch \<noteq> [] then
                 (fst (write_points E (db w) batch),
                  \<lparr>trace = tr' @ [Write_points batch],
                   db = snd (write_points E (db w) batch)\<rparr>)
               else (None, \<lparr>trace = tr', db = db w\<rparr>)))
   \<and> (route (topic msg) = Some i \<longrightarrow> decode E (payload msg) = Some decoded \<longrightarrow>
        json_loads E decoded = Some pl \<longrightarrow> py_iter pl = Inr (pre @ m # post) \<longrightarrow>
        collect (strptime E) i pl pre [] (trace w @ [Log (Info_received pl (topic msg))])
          = (Inr msgs, tr) \<longrightarrow>
        py_getitem pl m = Inr (PDict es) \<longrightarrow> map_of es ''timestamp'' = Some (PStr s) \<longrightarrow>
        map_of es ''value'' = Some (PFloat x) \<longrightarrow> strptime E s TIMESTAMP_FMT = None \<longrightarrow>
        on_message E msg w = (Some ValueError, \<lparr>trace = tr, db = db w\<rparr>)
        \<and> (\<forall>b. Write_points b \<notin> set (drop (length (trace w)) tr)))"
proof (intro conjI impI)
  assume "on_message E msg w = (r, w')"
    "Write_points batch \<in> set (drop (length (trace w)) (trace w'))" "p \<in> set batch"
  then show "\<exists>decoded pl entry s.
           decode E (payload msg) = Some decoded \<and> json_loads E decoded = Some pl
           \<and> py_getitem pl (measurement p) = Inr entry
           \<and> py_getitem entry (PStr ''timestamp'') = Inr (PStr s)
           \<and> strptime E s TIMESTAMP_FMT = Some (timestamp p)"
    by (rule written_point_timestamp)
next
  assume "py_getitem pl m = Inr (PDict es)" "map_of es ''timestamp'' = None"
  then show "collect strp i pl (m # ms) msgs tr =
          collect strp i pl ms msgs
            (tr @ [Log (Warning_no_timestamp (location i) (station i) m)])"
    by (rule collect_no_timestamp)
next
  assume "py_getitem pl m = Inr (PDict es)" "map_of es ''timestamp'' = Some (PStr s)"
    "map_of es ''value'' = Some (PFloat x)" "strp s TIMESTAMP_FMT = None"
  then show "collect strp i pl (m # ms) msgs tr = (Inl ValueError, tr)"
    using collect_unparseable[of pl m es s x strp i ms msgs tr] by simp
next
  assume "route (topic msg) = Some i" "decode E (payload msg) = Some decoded"
    "json_loads E decoded = Some pl" "py_iter pl = Inr (pre @ m # post)"
    "collect (strptime E) i pl pre [] (trace w @ [Log (Info_received pl (topic msg))])
          = (Inr msgs, tr)"
    "py_getitem pl m = Inr (PDict es)" "map_of es ''timestamp'' = None"
  then show "on_message E msg w =
          (case collect (strptime E) i pl post msgs
                  (tr @ [Log (Warning_no_timestamp (location i) (station i) m)]) of
             (Inl e, tr') \<Rightarrow> (Some e, \<lparr>trace = tr', db = db w\<rparr>)
           | (Inr batch, tr') \<Rightarrow>
               if batch \<noteq> [] then
                 (fst (write_points E (db w) batch),
                  \<lparr>trace = tr' @ [Write_points batch],
                   db = snd (write_points E (db w) batch)\<rparr>)
               else (None, \<lparr>trace = tr', db = db w\<rparr>))"
    by (rule on_message_no_timestamp)
next
  assume a: "route (topic msg) = Some i" "decode E (payload msg) = Some decoded"
    "json_loads E decoded = Some pl" "py_iter pl = Inr (pre @ m # post)"
    "collect (strptime E) i pl pre [] (trace w @ [Log (Info_received pl (topic msg))])
          = (Inr msgs, tr)"
    "py_getitem pl m = Inr (PDict es)" "map_of es ''timestamp'' = Some (PStr s)"
    "map_of es ''value'' = Some (PFloat x)" "strptime E s TIMESTAMP_FMT = None"
  from on_message_unparseable[OF a]
  show "on_message E msg w = (Some ValueError, \<lparr>trace = tr, db = db w\<rparr>)"
    and "\<forall>b. Write_points b \<notin> set (drop (length (trace w)) tr)" by simp_all
qed


theorem timestamp_checked_on_append_witness:
  \<open>(\<exists>decoded pl entry s.
      decode scenario_env ''{"temperature": {"timestamp": "2024-01-01 12:00:00", "value": 21.5}}'' = Some decoded
      \<and> json_loads scenario_env decoded = Some pl
      \<and> py_getitem pl (PStr ''temperature'') = Inr entry
      \<and> py_getitem entry (PStr ''timestamp'') = Inr (PStr s)
      \<and> strptime scenario_env s TIMESTAMP_FMT = Some (2024, 1, 1, 12, 0, 0))
   \<and> collect scenario_strptime \<lparr>location = ''greenhouse1'', station = ''stationA''\<rparr>
        (PDict [(''humidity'', PDict [(''value'', PFloat 40.5)])])
        [PStr ''humidity''] [] [] =
       (Inr [], [Log (Warning_no_timestamp ''greenhouse1'' ''stationA'' (PStr ''humidity''))])
   \<and> collect scenario_strptime \<lparr>location = ''greenhouse1'', station = ''stationA''\<rparr>
        (PDict [(''temperature'',
           PDict [(''timestamp'', PStr ''yesterday''), (''value'', PFloat 21.5)])])
        [PStr ''temperature''] [] [] = (Inl ValueError, [])
   \<and> on_message scenario_env
        \<lparr>topic = ''greenhouse1/stationA'',
         payload = ''{"humidity": {"value": 40.5}, "temperature": {"timestamp": "2024-01-01 12:00:00", "value": 21.5}}''\<rparr>
        \<lparr>trace = [], db = (0, [])\<rparr> =
       (None,
        \<lparr>trace = [Log (Info_received
           (PDict [(''humidity'', PDict [(''value'', PFloat 40.5)]),
              (''temperature'',
               PDict [(''timestamp'', PStr ''2024-01-01 12:00:00''), (''value'', PFloat 21.5)])])
           ''greenhouse1/stationA''),
           Log (Warning_no_timestamp ''greenhouse1'' ''stationA'' (PStr ''humidity'')),
           Write_points [\<lparr>timestamp = (2024, 1, 1, 12, 0, 0), measurement = PStr ''temperature'',
              tags = \<lparr>location = ''greenhouse1'', station = ''stationA''\<rparr>,
              fields_value = PFloat 21.5\<rparr>]],
         db = (0, [[\<lparr>timestamp = (2024, 1, 1, 12, 0, 0), measurement = PStr ''temperature'',
              tags = \<lparr>location = ''greenhouse1'', station = ''stationA''\<rparr>,
              fields_value = PFloat 21.5\<rparr>]])\<rparr>)
   \<and> on_message scenario_env
        \<lparr>topic = ''greenhouse1/stationA'',
         payload = ''{"temperature": {"timestamp": "yesterday", "value": 21.5}}''\<rparr>
        \<lparr>trace = [Log (Warning_invalid_topic ''badtopic'')], db = (0, [])\<rparr> =
       (Some ValueError,
        \<lparr>trace = [Log (Warning_invalid_topic ''badtopic''),
           Log (Info_received
             (PDict [(''temperature'',
                PDict [(''timestamp'', PStr ''yesterday''), (''value'', PFloat 21.5)])])
             ''greenhouse1/stationA'')],
         db = (0, [])\<rparr>)\<close>
proof -
  let ?i = "\<lparr>location = ''greenhouse1'', station = ''stationA''\<rparr>"
  let ?p = "\<lparr>timestamp = (2024::nat, 1::nat, 1::nat, 12::nat, 0::nat, 0::nat),
             measurement = PStr ''temperature'', tags = ?i, fields_value = PFloat 21.5\<rparr>"
  let ?plA = "PDict [(''temperature'',
          PDict [(''timestamp'', PStr ''2024-01-01 12:00:00''), (''value'', PFloat 21.5)])]"
  let ?msg = \<open>\<lparr>topic = ''greenhouse1/stationA'',
     payload = ''{"temperature": {"timestamp": "2024-01-01 12:00:00", "value": 21.5}}''\<rparr>\<close>
  let ?w = "\<lparr>trace = [], db = (0, [])\<rparr> :: (scenario_datetime, scenario_db) world"
  let ?w' = "\<lparr>trace = [Log (Info_received ?plA ''greenhouse1/stationA''), Write_points [?p]],
              db = (0, [[?p]])\<rparr> :: (scenario_datetime, scenario_db) world"
  let ?plH = "PDict [(''humidity'', PDict [(''value'', PFloat 40.5)]),
              (''temperature'',
               PDict [(''timestamp'', PStr ''2024-01-01 12:00:00''), (''value'', PFloat 21.5)])]"
  let ?bytesH = \<open>''{"humidity": {"value": 40.5}, "temperature": {"timestamp": "2024-01-01 12:00:00", "value": 21.5}}''\<close>
  let ?msgH = "\<lparr>topic = ''greenhouse1/stationA'', payload = ?bytesH\<rparr>"
  let ?plY = "PDict [(''temperature'',
           PDict [(''timestamp'', PStr ''yesterday''), (''value'', PFloat 21.5)])]"
  let ?bytesY = \<open>''{"temperature": {"timestamp": "yesterday", "value": 21.5}}''\<close>
  let ?msgY = "\<lparr>topic = ''greenhouse1/stationA'', payload = ?bytesY\<rparr>"
  let ?w1 = "\<lparr>trace = [Log (Warning_invalid_topic ''badtopic'')], db = (0, [])\<rparr>
               :: (scenario_datetime, scenario_db) world"
  have run: "on_message scenario_env ?msg ?w = (None, ?w')"
    by (simp add: scenario_defs)
  have a: "\<exists>decoded pl entry s.
      decode scenario_env (payload ?msg) = Some decoded
      \<and> json_loads scenario_env decoded = Some pl
      \<and> py_getitem pl (measurement ?p) = Inr entry
      \<and> py_getitem entry (PStr ''timestamp'') = Inr (PStr s)
      \<and> strptime scenario_env s TIMESTAMP_FMT = Some (timestamp ?p)"
    using timestamp_checked_on_append[where E = scenario_env and msg = ?msg
        and w = ?w and r = None and w' = ?w' and batch = "[?p]" and p = ?p, THEN conjunct1] run
    by simp
  have b: "collect scenario_strptime ?i (PDict [(''humidity'', PDict [(''value'', PFloat 40.5)])])
        [PStr ''humidity''] [] [] =
       (Inr [], [Log (Warning_no_timestamp ''greenhouse1'' ''stationA'' (PStr ''humidity''))])"
    using timestamp_checked_on_append[where
        pl = "PDict [(''humidity'', PDict [(''value'', PFloat 40.5)])]"
        and m = "PStr ''humidity''" and es = "[(''value'', PFloat 40.5)]"
        and strp = scenario_strptime and i = ?i and ms = "[]" and msgs = "[]" and tr = "[]",
        THEN conjunct2, THEN conjunct1]
    by simp
  have c: "collect scenario_strptime ?i ?plY [PStr ''temperature''] [] [] = (Inl ValueError, [])"
    using timestamp_checked_on_append[where pl = ?plY
        and m = "PStr ''temperature''"
        and es = "[(''timestamp'', PStr ''yesterday''), (''value'', PFloat 21.5)]"
        and s = "''yesterday''" and x = "21.5"
        and strp = scenario_strptime and i = ?i and ms = "[]" and msgs = "[]" and tr = "[]",
        THEN conjunct2, THEN conjunct2, THEN conjunct1]
    by (simp add: scenario_strptime_def TIMESTAMP_FMT_def)
  have d: "on_message scenario_env ?msgH ?w =
       (None,
        \<lparr>trace = [Log (Info_received ?plH ''greenhouse1/stationA''),
           Log (Warning_no_timestamp ''greenhouse1'' ''stationA'' (PStr ''humidity'')),
           Write_points [?p]],
         db = (0, [[?p]])\<rparr>)"
    using timestamp_checked_on_append[where E = scenario_env and msg = ?msgH and w = ?w
        and i = ?i and decoded = ?bytesH and pl = ?plH and pre = "[]"
        and m = "PStr ''humidity''" and post = "[PStr ''temperature'']" and msgs = "[]"
        and tr = "[Log (Info_received ?plH ''greenhouse1/stationA'')]"
        and es = "[(''value'', PFloat 40.5)]",
        THEN conjunct2, THEN conjunct2, THEN conjunct2, THEN conjunct1]
    by (simp add: route_def py_split_def scenario_env_def scenario_json_loads_def
          scenario_strptime_def scenario_write_points_def loop_body_def TIMESTAMP_FMT_def)
  have e: "on_message scenario_env ?msgY ?w1 =
       (Some ValueError,
        \<lparr>trace = [Log (Warning_invalid_topic ''badtopic''),
           Log (Info_received ?plY ''greenhouse1/stationA'')],
         db = (0, [])\<rparr>)"
    using timestamp_checked_on_append[where E = scenario_env and msg = ?msgY and w = ?w1
        and i = ?i and decoded = ?bytesY and pl = ?plY and pre = "[]"
        and m = "PStr ''temperature''" and post = "[]" and msgs = "[]"
        and tr = "[Log (Warning_invalid_topic ''badtopic''),
                   Log (Info_received ?plY ''greenhouse1/stationA'')]"
        and es = "[(''timestamp'', PStr ''yesterday''), (''value'', PFloat 21.5)]"
        and s = "''yesterday''" and x = "21.5",
        THEN conjunct2, THEN conjunct2, THEN conjunct2, THEN conjunct2]
    by (simp add: route_def py_split_def scenario_env_def scenario_json_loads_def
          scenario_strptime_def TIMESTAMP_FMT_def)
  from a b c d e show ?thesis by simp
qed

text \<open>
  Claim C2 as stated has an unparseable timestamp dropped with no error leaving the
  handler. On the payload below the handler raises \<^verbatim>\<open>ValueError\<close> and writes nothing.
\<close>

theorem unparseable_timestamp_counterexample:
  \<open>on_message scenario_env
     \<lparr>topic = ''greenhouse1/stationA'',
      payload = ''{"temperature": {"timestamp": "yesterday", "value": 21.5}}''\<rparr>
     \<lparr>trace = [], db = (0, [])\<rparr> =
   (Some ValueError,
    \<lparr>trace = [Log (Info_received
       (PDict [(''temperature'',
          PDict [(''timestamp'', PStr ''yesterday''), (''value'', PFloat 21.5)])])
       ''greenhouse1/stationA'')],
     db = (0, [])\<rparr>)\<close>
  by (simp add: scenario_defs)

section \<open>Payloads that do not parse\<close>

text \<open>
  Claim C3, as the code has it. When \<^verbatim>\<open>json.loads\<close> cannot parse the payload of a
  message with a valid topic, the handler raises: \<^verbatim>\<open>JSONDecodeError\<close> leaves
  \<^verbatim>\<open>on_message\<close>, nothing has been logged and nothing is written. The same holds for a
  payload that is not UTF-8 (\<^verbatim>\<open>UnicodeDecodeError\<close>), and a payload that parses to a value
  that cannot be iterated raises after the received-message log line. What the MQTT
  client does with an exception from a callback is outside the handler.
\<close>

theorem malformed_payload_raises:
  "(route (topic msg) = Some i \<longrightarrow> decode E (payload msg) = Some decoded \<longrightarrow>
      json_loads E decoded = None \<longrightarrow>
      on_message E msg w = (Some JSONDecodeError, w))
   \<and> (route (topic msg) = Some i \<longrightarrow> decode E (payload msg) = None \<longrightarrow>
      on_message E msg w = (Some UnicodeDecodeError, w))
   \<and> (route (topic msg) = Some i \<longrightarrow> decode E (payload msg) = Some decoded \<longrightarrow>
      json_loads E decoded = Some pl \<longrightarrow> py_iter pl = Inl e \<longrightarrow>
      on_message E msg w =
        (Some e, \<lparr>trace = trace w @ [Log (Info_received pl (topic msg))], db = db w\<rparr>))"
  by (simp add: on_message_def)

theorem malformed_payload_raises_witness:
  "on_message scenario_env \<lparr>topic = ''greenhouse1/stationA'', payload = ''not json''\<rparr>
     \<lparr>trace = [], db = (0, [])\<rparr> =
   (Some JSONDecodeError, \<lparr>trace = [], db = (0, [])\<rparr>)"
  using malformed_payload_raises[where E = scenario_env
      and msg = "\<lparr>topic = ''greenhouse1/stationA'', payload = ''not json''\<rparr>"
      and i = "\<lparr>location = ''greenhouse1'', station = ''stationA''\<rparr>"
      and decoded = "''not json''" and w = "\<lparr>trace = [], db = (0, [])\<rparr>", THEN conjunct1]
  by (simp add: route_def py_split_def scenario_env_def scenario_json_loads_def)

text \<open>
  Claim C3 as stated has no exception propagate. On a payload that is not JSON an
  exception leaves the handler.
\<close>

theorem malformed_payload_counterexample:
  "fst (on_message scenario_env \<lparr>topic = ''greenhouse1/stationA'', payload = ''not json''\<rparr>
     \<lparr>trace = [], db = (0, [])\<rparr>) \<noteq> None"
  by (simp add: scenario_defs)

section \<open>Values\<close>



section \<open>Payloads with valid entries only\<close>

text \<open>
  Claim C5. When the payload is a mapping in which every entry is a mapping with a
  string timestamp that parses and a float value, the loop returns one point per entry, in
  the order of the keys and with no warning logged: the point of a key carries the key as
  measurement, the topic's location and station as tags, and the parsed timestamp and the
  float value of the entry that the payload holds under that key. The handler passes
  exactly these points to \<^verbatim>\<open>write_points\<close> (no call when the payload has no entry at all).
\<close>

theorem all_valid_one_record_each:
  assumes r: "route (topic msg) = Some i"
    and d: "decode E (payload msg) = Some decoded"
    and j: "json_loads E decoded = Some (PDict kvs)"
    and valid: "\<forall>(k, e) \<in> set kvs. \<exists>es s t x. e = PDict es
        \<and> map_of es ''timestamp'' = Some (PStr s) \<and> strptime E s TIMESTAMP_FMT = Some t
        \<and> map_of es ''value'' = Some (PFloat x)"
  shows "\<exists>batch. length batch = length kvs
      \<and> map measurement batch = map (\<lambda>kv. PStr (fst kv)) kvs
      \<and> list_all2 (\<lambda>kv p. \<exists>es s t x. py_getitem (PDict kvs) (PStr (fst kv)) = Inr (PDict es)
            \<and> map_of es ''timestamp'' = Some (PStr s) \<and> strptime E s TIMESTAMP_FMT = Some t
            \<and> map_of es ''value'' = Some (PFloat x)
            \<and> p = \<lparr>timestamp = t, measurement = PStr (fst kv), tags = i,
                    fields_value = PFloat x\<rparr>) kvs batch
      \<and> (distinct (map fst kvs) \<longrightarrow>
          list_all2 (\<lambda>kv p. \<exists>es s t x. snd kv = PDict es
            \<and> map_of es ''timestamp'' = Some (PStr s) \<and> strptime E s TIMESTAMP_FMT = Some t
            \<and> map_of es ''value'' = Some (PFloat x)
            \<and> p = \<lparr>timestamp = t, measurement = PStr (fst kv), tags = i,
                    fields_value = PFloat x\<rparr>) kvs batch)
      \<and> collect (strptime E) i (PDict kvs) (map (\<lambda>kv. PStr (fst kv)) kvs) []
           (trace w @ [Log (Info_received (PDict kvs) (topic msg))])
          = (Inr batch, trace w @ [Log (Info_received (PDict kvs) (topic msg))])
      \<and> on_message E msg w =
          (if batch \<noteq> [] then
             (fst (write_points E (db w) batch),
              \<lparr>trace = trace w @ [Log (Info_received (PDict kvs) (topic msg)), Write_points batch],
               db = snd (write_points E (db w) batch)\<rparr>)
           else (None, w\<lparr>trace := trace w @ [Log (Info_received (PDict kvs) (topic msg))]\<rparr>))"
proof -
  let ?ms = "map (\<lambda>kv. PStr (fst kv)) kvs"
  let ?tr = "trace w @ [Log (Info_received (PDict kvs) (topic msg))]"
  let ?P = "\<lambda>m p. \<exists>k es s t x. m = PStr k \<and> map_of kvs k = Some (PDict es)
            \<and> map_of es ''timestamp'' = Some (PStr s) \<and> strptime E s TIMESTAMP_FMT = Some t
            \<and> map_of es ''value'' = Some (PFloat x)
            \<and> p = \<lparr>timestamp = t, measurement = m, tags = i, fields_value = PFloat x\<rparr>"
  let ?Q = "\<lambda>kv p. \<exists>es s t x. py_getitem (PDict kvs) (PStr (fst kv)) = Inr (PDict es)
            \<and> map_of es ''timestamp'' = Some (PStr s) \<and> strptime E s TIMESTAMP_FMT = Some t
            \<and> map_of es ''value'' = Some (PFloat x)
            \<and> p = \<lparr>timestamp = t, measurement = PStr (fst kv), tags = i,
                    fields_value = PFloat x\<rparr>"
  let ?R = "\<lambda>kv p. \<exists>es s t x. snd kv = PDict es
            \<and> map_of es ''timestamp'' = Some (PStr s) \<and> strptime E s TIMESTAMP_FMT = Some t
            \<and> map_of es ''value'' = Some (PFloat x)
            \<and> p = \<lparr>timestamp = t, measurement = PStr (fst kv), tags = i,
                    fields_value = PFloat x\<rparr>"
  have "\<forall>m \<in> set ?ms. \<exists>k es s t x. m = PStr k \<and> map_of kvs k = Some (PDict es)
      \<and> map_of es ''timestamp'' = Some (PStr s) \<and> strptime E s TIMESTAMP_FMT = Some t
      \<and> map_of es ''value'' = Some (PFloat x)"
  proof
    fix m assume "m \<in> set ?ms"
    then obtain k e where ke: "(k, e) \<in> set kvs" and m: "m = PStr k" by auto
    from map_of_first_entry[OF ke] obtain e' where e': "map_of kvs k = Some e'"
      and in': "(k, e') \<in> set kvs" by blast
    from valid in' obtain es s t x where "e' = PDict es"
      "map_of es ''timestamp'' = Some (PStr s)" "strptime E s TIMESTAMP_FMT = Some t"
      "map_of es ''value'' = Some (PFloat x)" by fastforce
    with m e' show "\<exists>k es s t x. m = PStr k \<and> map_of kvs k = Some (PDict es)
      \<and> map_of es ''timestamp'' = Some (PStr s) \<and> strptime E s TIMESTAMP_FMT = Some t
      \<and> map_of es ''value'' = Some (PFloat x)" by blast
  qed
  then have "\<exists>new. collect (strptime E) i (PDict kvs) ?ms [] ?tr = (Inr ([] @ new), ?tr)
      \<and> list_all2 ?P ?ms new"
    by (rule collect_all_valid_points[where strp = "strptime E" and kvs = kvs and ms = ?ms])
  then obtain batch
    where c: "collect (strptime E) i (PDict kvs) ?ms [] ?tr = (Inr batch, ?tr)"
      and all: "list_all2 ?P ?ms batch" by auto
  from all have allkv: "list_all2 (\<lambda>kv p. ?P (PStr (fst kv)) p) kvs batch"
    by (simp add: list_all2_map1)
  have q: "list_all2 ?Q kvs batch"
    by (rule list_all2_mono[OF allkv]) auto
  have rr: "list_all2 ?R kvs batch" if dist: "distinct (map fst kvs)"
  proof (rule list.rel_mono_strong[OF allkv])
    fix kv p assume kv: "kv \<in> set kvs" and P: "?P (PStr (fst kv)) p"
    have "map_of kvs (fst kv) = Some (snd kv)"
      using map_of_is_SomeI[OF dist, of "fst kv" "snd kv"] kv by simp
    with P show "?R kv p" by auto
  qed
  from q have len: "length batch = length kvs" by (simp add: list_all2_lengthD)
  have mm: "map measurement batch = ?ms"
  proof (rule nth_equalityI)
    show "length (map measurement batch) = length ?ms" using len by simp
  next
    fix n assume "n < length (map measurement batch)"
    then have n: "n < length kvs" using len by simp
    from list_all2_nthD[OF q n] have "measurement (batch ! n) = PStr (fst (kvs ! n))" by auto
    then show "map measurement batch ! n = ?ms ! n" using n len by simp
  qed
  have it: "py_iter (PDict kvs) = Inr ?ms" by simp
  have run: "on_message E msg w =
          (if batch \<noteq> [] then
             (fst (write_points E (db w) batch),
              \<lparr>trace = ?tr @ [Write_points batch],
               db = snd (write_points E (db w) batch)\<rparr>)
           else (None, w\<lparr>trace := ?tr\<rparr>))"
    using on_message_run[OF r d j it c] by simp
  show ?thesis
    apply (rule exI[of _ batch])
    using len mm q rr c run by simp
qed


theorem all_valid_one_record_each_witness:
  \<open>on_message scenario_env
     \<lparr>topic = ''greenhouse1/stationA'',
      payload = ''{"temperature": {"timestamp": "2024-01-01 12:00:00", "value": 21.5}, "humidity": {"timestamp": "2024-01-01 12:00:00", "value": 40.5}}''\<rparr>
     \<lparr>trace = [], db = (0, [])\<rparr> =
   (None,
    \<lparr>trace = [Log (Info_received
        (PDict [(''temperature'',
           PDict [(''timestamp'', PStr ''2024-01-01 12:00:00''), (''value'', PFloat 21.5)]),
          (''humidity'',
           PDict [(''timestamp'', PStr ''2024-01-01 12:00:00''), (''value'', PFloat 40.5)])])
        ''greenhouse1/stationA''),
       Write_points
        [\<lparr>timestamp = (2024, 1, 1, 12, 0, 0), measurement = PStr ''temperature'',
           tags = \<lparr>location = ''greenhouse1'', station = ''stationA''\<rparr>,
           fields_value = PFloat 21.5\<rparr>,
         \<lparr>timestamp = (2024, 1, 1, 12, 0, 0), measurement = PStr ''humidity'',
           tags = \<lparr>location = ''greenhouse1'', station = ''stationA''\<rparr>,
           fields_value = PFloat 40.5\<rparr>]],
     db = (0,
       [[\<lparr>timestamp = (2024, 1, 1, 12, 0, 0), measurement = PStr ''temperature'',
           tags = \<lparr>location = ''greenhouse1'', station = ''stationA''\<rparr>,
           fields_value = PFloat 21.5\<rparr>,
         \<lparr>timestamp = (2024, 1, 1, 12, 0, 0), measurement = PStr ''humidity'',
           tags = \<lparr>location = ''greenhouse1'', station = ''stationA''\<rparr>,
           fields_value = PFloat 40.5\<rparr>]])\<rparr>)\<close>
proof -
  let ?i = "\<lparr>location = ''greenhouse1'', station = ''stationA''\<rparr>"
  let ?eT = "[(''timestamp'', PStr ''2024-01-01 12:00:00''), (''value'', PFloat 21.5)]"
  let ?eH = "[(''timestamp'', PStr ''2024-01-01 12:00:00''), (''value'', PFloat 40.5)]"
  let ?kvs = "[(''temperature'', PDict ?eT), (''humidity'', PDict ?eH)]"
  let ?p1 = "\<lparr>timestamp = (2024::nat, 1::nat, 1::nat, 12::nat, 0::nat, 0::nat),
             measurement = PStr ''temperature'', tags = ?i, fields_value = PFloat 21.5\<rparr>"
  let ?p2 = "\<lparr>timestamp = (2024::nat, 1::nat, 1::nat, 12::nat, 0::nat, 0::nat),
             measurement = PStr ''humidity'', tags = ?i, fields_value = PFloat 40.5\<rparr>"
  let ?msg = \<open>\<lparr>topic = ''greenhouse1/stationA'',
     payload = ''{"temperature": {"timestamp": "2024-01-01 12:00:00", "value": 21.5}, "humidity": {"timestamp": "2024-01-01 12:00:00", "value": 40.5}}''\<rparr>\<close>
  let ?w = "\<lparr>trace = [], db = (0, [])\<rparr> :: (scenario_datetime, scenario_db) world"
  have r: "route (topic ?msg) = Some ?i"
    by (simp add: route_def py_split_def)
  have d: "decode scenario_env (payload ?msg) = Some (payload ?msg)"
    by (simp add: scenario_env_def)
  have j: "json_loads scenario_env (payload ?msg) = Some (PDict ?kvs)"
    by (simp add: scenario_env_def scenario_json_loads_def)
  have parse: "strptime scenario_env ''2024-01-01 12:00:00'' TIMESTAMP_FMT
      = Some (2024, 1, 1, 12, 0, 0)"
    by (simp add: scenario_env_def scenario_strptime_def TIMESTAMP_FMT_def)
  have vT: "\<exists>es s t x. PDict ?eT = PDict es \<and> map_of es ''timestamp'' = Some (PStr s)
        \<and> strptime scenario_env s TIMESTAMP_FMT = Some t
        \<and> map_of es ''value'' = Some (PFloat x)"
    using parse by (intro exI[of _ ?eT] exI[of _ "''2024-01-01 12:00:00''"]
        exI[of _ "(2024, 1, 1, 12, 0, 0)"] exI[of _ "21.5"]) simp
  have vH: "\<exists>es s t x. PDict ?eH = PDict es \<and> map_of es ''timestamp'' = Some (PStr s)
        \<and> strptime scenario_env s TIMESTAMP_FMT = Some t
        \<and> map_of es ''value'' = Some (PFloat x)"
    using parse by (intro exI[of _ ?eH] exI[of _ "''2024-01-01 12:00:00''"]
        exI[of _ "(2024, 1, 1, 12, 0, 0)"] exI[of _ "40.5"]) simp
  have v: "\<forall>(k, e) \<in> set ?kvs. \<exists>es s t x. e = PDict es
        \<and> map_of es ''timestamp'' = Some (PStr s)
        \<and> strptime scenario_env s TIMESTAMP_FMT = Some t
        \<and> map_of es ''value'' = Some (PFloat x)"
    using vT vH by (simp only: list.set ball_simps prod.case simp_thms)
  from all_valid_one_record_each[OF r d j v, of ?w]
  obtain batch
    where q: "list_all2 (\<lambda>kv p. \<exists>es s t x.
            py_getitem (PDict ?kvs) (PStr (fst kv)) = Inr (PDict es)
            \<and> map_of es ''timestamp'' = Some (PStr s)
            \<and> strptime scenario_env s TIMESTAMP_FMT = Some t
            \<and> map_of es ''value'' = Some (PFloat x)
            \<and> p = \<lparr>timestamp = t, measurement = PStr (fst kv), tags = ?i,
                    fields_value = PFloat x\<rparr>) ?kvs batch"
    and run: "on_message scenario_env ?msg ?w =
          (if batch \<noteq> [] then
             (fst (write_points scenario_env (db ?w) batch),
              \<lparr>trace = trace ?w @ [Log (Info_received (PDict ?kvs) (topic ?msg)), Write_points batch],
               db = snd (write_points scenario_env (db ?w) batch)\<rparr>)
           else (None, ?w\<lparr>trace := trace ?w @ [Log (Info_received (PDict ?kvs) (topic ?msg))]\<rparr>))"
    by blast
  from q obtain b1 b2 where b: "batch = [b1, b2]"
    and q1: "\<exists>es s t x. py_getitem (PDict ?kvs) (PStr ''temperature'') = Inr (PDict es)
            \<and> map_of es ''timestamp'' = Some (PStr s)
            \<and> strptime scenario_env s TIMESTAMP_FMT = Some t
            \<and> map_of es ''value'' = Some (PFloat x)
            \<and> b1 = \<lparr>timestamp = t, measurement = PStr ''temperature'', tags = ?i,
                    fields_value = PFloat x\<rparr>"
    and q2: "\<exists>es s t x. py_getitem (PDict ?kvs) (PStr ''humidity'') = Inr (PDict es)
            \<and> map_of es ''timestamp'' = Some (PStr s)
            \<and> strptime scenario_env s TIMESTAMP_FMT = Some t
            \<and> map_of es ''value'' = Some (PFloat x)
            \<and> b2 = \<lparr>timestamp = t, measurement = PStr ''humidity'', tags = ?i,
                    fields_value = PFloat x\<rparr>"
    by (auto simp: list_all2_Cons1)
  from q1 parse have b1: "b1 = ?p1" by auto
  from q2 parse have b2: "b2 = ?p2" by auto
  show ?thesis
    using run b b1 b2 by (simp add: scenario_env_def scenario_write_points_def)
qed

section \<open>The sink\<close>

text \<open>
  Claim C6, as the code has it. The handler calls \<^verbatim>\<open>write_points\<close> at most once per
  message, as its last action, and what that call does is what the handler does: the
  exception it raises leaves the handler and the database is as that one call left it.
  There is no retry and no backoff.
\<close>

theorem single_write_attempt:
  "on_message E msg w = (r, w') \<Longrightarrow>
   (\<exists>ls. trace w' = trace w @ map Log ls \<and> db w' = db w)
   \<or> (\<exists>ls batch. trace w' = trace w @ map Log ls @ [Write_points batch]
         \<and> write_points E (db w) batch = (r, db w'))"
  using on_message_cases[of E msg w r w'] by blast

theorem single_write_attempt_witness:
  \<open>\<exists>ls batch.
     trace (snd (on_message scenario_env
         \<lparr>topic = ''greenhouse1/stationA'',
          payload = ''{"temperature": {"timestamp": "2024-01-01 12:00:00", "value": 21.5}}''\<rparr>
         \<lparr>trace = [], db = (3, [])\<rparr>)) = map Log ls @ [Write_points batch]
     \<and> scenario_write_points (3, []) batch = (Some ConnectionError, (2, []))\<close>
proof -
  let ?i = "\<lparr>location = ''greenhouse1'', station = ''stationA''\<rparr>"
  let ?p = "\<lparr>timestamp = (2024::nat, 1::nat, 1::nat, 12::nat, 0::nat, 0::nat),
             measurement = PStr ''temperature'', tags = ?i, fields_value = PFloat 21.5\<rparr>"
  let ?plA = "PDict [(''temperature'',
          PDict [(''timestamp'', PStr ''2024-01-01 12:00:00''), (''value'', PFloat 21.5)])]"
  let ?msg = \<open>\<lparr>topic = ''greenhouse1/stationA'',
     payload = ''{"temperature": {"timestamp": "2024-01-01 12:00:00", "value": 21.5}}''\<rparr>\<close>
  let ?w = "\<lparr>trace = [], db = (3, [])\<rparr> :: (scenario_datetime, scenario_db) world"
  let ?w' = "\<lparr>trace = [Log (Info_received ?plA ''greenhouse1/stationA''), Write_points [?p]],
              db = (2, [])\<rparr> :: (scenario_datetime, scenario_db) world"
  have run: "on_message scenario_env ?msg ?w = (Some ConnectionError, ?w')"
    by (simp add: scenario_defs)
  from single_write_attempt[OF run]
  have "\<exists>ls batch. trace ?w' = trace ?w @ map Log ls @ [Write_points batch]
         \<and> write_points scenario_env (db ?w) batch = (Some ConnectionError, db ?w')"
    by simp
  then show ?thesis using run by (simp add: scenario_env_def)
qed
text \<open>
  Claim C6 as stated has a write that fails three times retried until it is committed.
  Against a database that refuses three writes, the handler makes one call, raises
  \<^verbatim>\<open>ConnectionError\<close>, and the batch is not committed: two refusals are still left.
\<close>

theorem no_retry_counterexample:
  \<open>on_message scenario_env
     \<lparr>topic = ''greenhouse1/stationA'',
      payload = ''{"temperature": {"timestamp": "2024-01-01 12:00:00", "value": 21.5}}''\<rparr>
     \<lparr>trace = [], db = (3, [])\<rparr> =
   (Some ConnectionError,
    \<lparr>trace = [Log (Info_received
       (PDict [(''temperature'',
          PDict [(''timestamp'', PStr ''2024-01-01 12:00:00''), (''value'', PFloat 21.5)])])
       ''greenhouse1/stationA''),
       Write_points [\<lparr>timestamp = (2024, 1, 1, 12, 0, 0), measurement = PStr ''temperature'',
          tags = \<lparr>location = ''greenhouse1'', station = ''stationA''\<rparr>,
          fields_value = PFloat 21.5\<rparr>]],
     db = (2, [])\<rparr>)\<close>
  by (simp add: scenario_defs)

section \<open>Scenario A\<close>

text \<open>
  Claim C7. For the topic \<^verbatim>\<open>greenhouse1/stationA\<close> and a payload that parses to the
  mapping of scenario A, with \<open>t\<close> the result of parsing \<^verbatim>\<open>2024-01-01 12:00:00\<close> in the
  fixed format, the handler passes exactly one point to \<^verbatim>\<open>write_points\<close>: timestamp
  \<open>t\<close>, measurement \<^verbatim>\<open>temperature\<close>, tags location \<^verbatim>\<open>greenhouse1\<close> and station
  \<^verbatim>\<open>stationA\<close>, value 21.5.
\<close>

theorem scenario_A_one_record:
  assumes d: "decode E bytes = Some decoded"
    and j: "json_loads E decoded =
        Some (PDict [(''temperature'',
          PDict [(''timestamp'', PStr ''2024-01-01 12:00:00''), (''value'', PFloat 21.5)])])"
    and p: "strptime E ''2024-01-01 12:00:00'' TIMESTAMP_FMT = Some t"
  shows "on_message E \<lparr>topic = ''greenhouse1/stationA'', payload = bytes\<rparr> w =
     (fst (write_points E (db w)
        [\<lparr>timestamp = t, measurement = PStr ''temperature'',
          tags = \<lparr>location = ''greenhouse1'', station = ''stationA''\<rparr>,
          fields_value = PFloat 21.5\<rparr>]),
      \<lparr>trace = trace w @
         [Log (Info_received
            (PDict [(''temperature'',
               PDict [(''timestamp'', PStr ''2024-01-01 12:00:00''), (''value'', PFloat 21.5)])])
            ''greenhouse1/stationA''),
          Write_points
            [\<lparr>timestamp = t, measurement = PStr ''temperature'',
              tags = \<lparr>location = ''greenhouse1'', station = ''stationA''\<rparr>,
              fields_value = PFloat 21.5\<rparr>]],
       db = snd (write_points E (db w)
        [\<lparr>timestamp = t, measurement = PStr ''temperature'',
          tags = \<lparr>location = ''greenhouse1'', station = ''stationA''\<rparr>,
          fields_value = PFloat 21.5\<rparr>])\<rparr>)"
proof -
  let ?i = "\<lparr>location = ''greenhouse1'', station = ''stationA''\<rparr>"
  let ?pl = "PDict [(''temperature'',
          PDict [(''timestamp'', PStr ''2024-01-01 12:00:00''), (''value'', PFloat 21.5)])]"
  let ?msg = "\<lparr>topic = ''greenhouse1/stationA'', payload = bytes\<rparr>"
  let ?tr = "trace w @ [Log (Info_received ?pl (topic ?msg))]"
  let ?p = "\<lparr>timestamp = t, measurement = PStr ''temperature'', tags = ?i,
             fields_value = PFloat 21.5\<rparr>"
  have r: "route (topic ?msg) = Some ?i" by (simp add: route_def py_split_def)
  have it: "py_iter ?pl = Inr [PStr ''temperature'']" by simp
  have c: "collect (strptime E) ?i ?pl [PStr ''temperature''] [] ?tr = (Inr [?p], ?tr)"
    using p by (simp add: loop_body_def)
  from on_message_run[OF r _ _ it c, of decoded] d j show ?thesis by simp
qed

theorem scenario_A_one_record_witness:
  \<open>on_message scenario_env
     \<lparr>topic = ''greenhouse1/stationA'',
      payload = ''{"temperature": {"timestamp": "2024-01-01 12:00:00", "value": 21.5}}''\<rparr>
     \<lparr>trace = [], db = (0, [])\<rparr> =
   (None,
    \<lparr>trace = [Log (Info_received
       (PDict [(''temperature'',
          PDict [(''timestamp'', PStr ''2024-01-01 12:00:00''), (''value'', PFloat 21.5)])])
       ''greenhouse1/stationA''),
       Write_points [\<lparr>timestamp = (2024, 1, 1, 12, 0, 0), measurement = PStr ''temperature'',
          tags = \<lparr>location = ''greenhouse1'', station = ''stationA''\<rparr>,
          fields_value = PFloat 21.5\<rparr>]],
     db = (0, [[\<lparr>timestamp = (2024, 1, 1, 12, 0, 0), measurement = PStr ''temperature'',
          tags = \<lparr>location = ''greenhouse1'', station = ''stationA''\<rparr>,
          fields_value = PFloat 21.5\<rparr>]])\<rparr>)\<close>
proof -
  let ?bytes = \<open>''{"temperature": {"timestamp": "2024-01-01 12:00:00", "value": 21.5}}''\<close>
  have d: "decode scenario_env ?bytes = Some ?bytes" by (simp add: scenario_env_def)
  have j: "json_loads scenario_env ?bytes =
        Some (PDict [(''temperature'',
          PDict [(''timestamp'', PStr ''2024-01-01 12:00:00''), (''value'', PFloat 21.5)])])"
    by (simp add: scenario_env_def scenario_json_loads_def)
  have p: "strptime scenario_env ''2024-01-01 12:00:00'' TIMESTAMP_FMT = Some (2024, 1, 1, 12, 0, 0)"
    by (simp add: scenario_env_def scenario_strptime_def TIMESTAMP_FMT_def)
  show ?thesis
    using scenario_A_one_record[OF d j p, of "\<lparr>trace = [], db = (0, [])\<rparr>"]
    by (simp add: scenario_env_def scenario_write_points_def)
qed

section \<open>Empty batches\<close>

text \<open>
  Claim C8. When the loop ends with no point collected, the handler returns without a
  call of \<^verbatim>\<open>write_points\<close>: the database is unchanged and the trace holds log lines
  only. In no run is \<^verbatim>\<open>write_points\<close> called with an empty list.
\<close>

theorem empty_batch_no_write:
  "(route (topic msg) = Some i \<longrightarrow> decode E (payload msg) = Some decoded \<longrightarrow>
      json_loads E decoded = Some pl \<longrightarrow> py_iter pl = Inr ms \<longrightarrow>
      collect (strptime E) i pl ms [] (trace w @ [Log (Info_received pl (topic msg))])
        = (Inr [], tr) \<longrightarrow>
      on_message E msg w = (None, \<lparr>trace = tr, db = db w\<rparr>)
      \<and> (\<forall>b. Write_points b \<notin> set (drop (length (trace w)) tr)))
   \<and> (on_message E msg w = (r, w') \<longrightarrow>
        Write_points [] \<notin> set (drop (length (trace w)) (trace w')))"
proof -
  have "on_message E msg w = (None, \<lparr>trace = tr, db = db w\<rparr>)
      \<and> (\<forall>b. Write_points b \<notin> set (drop (length (trace w)) tr))"
    if r: "route (topic msg) = Some i" and d: "decode E (payload msg) = Some decoded"
      and j: "json_loads E decoded = Some pl" and it: "py_iter pl = Inr ms"
      and c: "collect (strptime E) i pl ms [] (trace w @ [Log (Info_received pl (topic msg))])
        = (Inr [], tr)"
  proof -
    have "on_message E msg w = (None, w\<lparr>trace := tr\<rparr>)"
      using on_message_run[OF r d j it c] by simp
    moreover have "w\<lparr>trace := tr\<rparr> = \<lparr>trace = tr, db = db w\<rparr>" by simp
    ultimately show ?thesis using collect_trace_no_write[OF c] by simp
  qed
  then show ?thesis using no_empty_write[of E msg w r w'] by blast
qed

theorem empty_batch_no_write_witness:
  \<open>on_message scenario_env \<lparr>topic = ''greenhouse1/stationA'', payload = ''{}''\<rparr>
      \<lparr>trace = [], db = (0, [])\<rparr> =
     (None, \<lparr>trace = [Log (Info_received (PDict []) ''greenhouse1/stationA'')], db = (0, [])\<rparr>)
   \<and> (\<forall>b. Write_points b \<notin> set [Log (Info_received (PDict []) ''greenhouse1/stationA'')])
   \<and> Write_points [] \<notin> set (trace (snd (on_message scenario_env
        \<lparr>topic = ''greenhouse1/stationA'',
         payload = ''{"temperature": {"timestamp": "2024-01-01 12:00:00", "value": 21.5}}''\<rparr>
        \<lparr>trace = [], db = (0, [])\<rparr>)))\<close>
proof -
  let ?i = "\<lparr>location = ''greenhouse1'', station = ''stationA''\<rparr>"
  let ?msg = "\<lparr>topic = ''greenhouse1/stationA'', payload = ''{}''\<rparr>"
  let ?msgA = \<open>\<lparr>topic = ''greenhouse1/stationA'',
     payload = ''{"temperature": {"timestamp": "2024-01-01 12:00:00", "value": 21.5}}''\<rparr>\<close>
  let ?w = "\<lparr>trace = [], db = (0, [])\<rparr> :: (scenario_datetime, scenario_db) world"
  let ?tr = "[Log (Info_received (PDict []) ''greenhouse1/stationA'')]
               :: scenario_datetime effect list"
  have a: "on_message scenario_env ?msg ?w = (None, \<lparr>trace = ?tr, db = db ?w\<rparr>)
      \<and> (\<forall>b. Write_points b \<notin> set (drop (length (trace ?w)) ?tr))"
    using empty_batch_no_write[where E = scenario_env and msg = ?msg and w = ?w and i = ?i
        and decoded = "''{}''" and pl = "PDict []" and ms = "[]" and tr = ?tr, THEN conjunct1]
    by (simp add: route_def py_split_def scenario_env_def scenario_json_loads_def)
  obtain r w' where run: "on_message scenario_env ?msgA ?w = (r, w')"
    by (cases "on_message scenario_env ?msgA ?w")
  have b: "Write_points [] \<notin> set (drop (length (trace ?w)) (trace w'))"
    using empty_batch_no_write[where E = scenario_env and msg = ?msgA and w = ?w and r = r
        and w' = w', THEN conjunct2] run
    by simp
  from a b run show ?thesis by simp
qed

section \<open>Entries that are not mappings\<close>

text \<open>
  Claim C9. When the first entry of the payload is a number, a boolean or \<^verbatim>\<open>None\<close>,
  the membership test \<^verbatim>\<open>'timestamp' not in payload[measurement]\<close> raises \<^verbatim>\<open>TypeError\<close>,
  which leaves the handler; the entry is not skipped.
\<close>

theorem non_mapping_entry_raises:
  assumes r: "route (topic msg) = Some i"
    and d: "decode E (payload msg) = Some decoded"
    and j: "json_loads E decoded = Some (PDict ((k, v) # kvs))"
    and v: "v = PNone \<or> (\<exists>b. v = PBool b) \<or> (\<exists>n. v = PInt n) \<or> (\<exists>x. v = PFloat x)"
  shows "on_message E msg w =
     (Some TypeError,
      w\<lparr>trace := trace w @ [Log (Info_received (PDict ((k, v) # kvs)) (topic msg))]\<rparr>)"
proof -
  let ?pl = "PDict ((k, v) # kvs)"
  let ?tr = "trace w @ [Log (Info_received ?pl (topic msg))]"
  have it: "py_iter ?pl = Inr (PStr k # map (\<lambda>kv. PStr (fst kv)) kvs)" by simp
  have "py_contains ''timestamp'' v = Inl TypeError" using v by auto
  then have "loop_body (strptime E) i ?pl (PStr k) [] ?tr = (Inl TypeError, ?tr)"
    by (simp add: loop_body_def)
  then have c: "collect (strptime E) i ?pl (PStr k # map (\<lambda>kv. PStr (fst kv)) kvs) [] ?tr
      = (Inl TypeError, ?tr)" by simp
  from on_message_run[OF r d j it c] show ?thesis by simp
qed

theorem non_mapping_entry_raises_witness:
  \<open>on_message scenario_env
     \<lparr>topic = ''greenhouse1/stationA'', payload = ''{"temperature": 5}''\<rparr>
     \<lparr>trace = [], db = (0, [])\<rparr> =
   (Some TypeError,
    \<lparr>trace = [Log (Info_received (PDict [(''temperature'', PInt 5)]) ''greenhouse1/stationA'')],
     db = (0, [])\<rparr>)\<close>
  using non_mapping_entry_raises[where E = scenario_env
      and msg = \<open>\<lparr>topic = ''greenhouse1/stationA'', payload = ''{"temperature": 5}''\<rparr>\<close>
      and i = "\<lparr>location = ''greenhouse1'', station = ''stationA''\<rparr>"
      and decoded = \<open>''{"temperature": 5}''\<close> and k = "''temperature''" and v = "PInt 5"
      and kvs = "[]" and w = "\<lparr>trace = [], db = (0, [])\<rparr>"]
  by (simp add: route_def py_split_def scenario_env_def scenario_json_loads_def)

section \<open>Routing comes first\<close>

text \<open>
  Claim C10. For a topic that does not split into exactly two pieces the handler logs
  the warning and returns, whatever the payload and whatever the decoder, the parser and
  the database would do: no exception, no call of \<^verbatim>\<open>write_points\<close>, the database
  unchanged.
\<close>

theorem invalid_topic_never_decodes:
  "length (py_split CHR ''/'' t) \<noteq> 2 \<Longrightarrow>
   on_message E \<lparr>topic = t, payload = bytes\<rparr> w =
     (None, \<lparr>trace = trace w @ [Log (Warning_invalid_topic t)], db = db w\<rparr>)"
  by (simp add: on_message_def route_def)

theorem invalid_topic_never_decodes_witness:
  "on_message scenario_env \<lparr>topic = ''a/b/c'', payload = ''not json''\<rparr>
     \<lparr>trace = [], db = (0, [])\<rparr> =
   (None, \<lparr>trace = [Log (Warning_invalid_topic ''a/b/c'')], db = (0, [])\<rparr>)"
  using invalid_topic_never_decodes[where t = "''a/b/c''" and E = scenario_env
      and bytes = "''not json''" and w = "\<lparr>trace = [], db = (0, [])\<rparr>"]
  by (simp add: py_split_def)

end
